theory Spec2Isabelle
  imports Main "HOL-Library.AList"
begin

section \<open>The response lifecycle of \<open>rw.httpbase.RequestHandler\<close>\<close>

text \<open>
  A shallow embedding of \<open>src/rw/httpbase.py\<close>. The handler object is a record that is
  passed through every method and returned updated; an exception is a value, returned
  together with the handler as it was when the exception was raised (Python keeps every
  assignment made before a \<open>raise\<close>).

  The class inherits from \<open>tornado.web.RequestHandler\<close>, which is not part of the
  repository. Inherited methods that only compute (the ETag hash, the comparison with the
  conditional request header, the rendering of the header block) and the hooks a user
  overrides are fields of the record \<open>handler_class\<close>; inherited methods that only store
  a value are written out below, each with a note on where its behaviour is taken from.
\<close>

subsection \<open>Data\<close>

type_synonym bytes = string

type_synonym headers = "(string \<times> string) list"

type_synonym callback = nat

text \<open>
  Exceptions. \<open>BaseOnly\<close> stands for the exceptions that derive from \<open>BaseException\<close>
  but not from \<open>Exception\<close> (\<open>KeyboardInterrupt\<close>, \<open>SystemExit\<close>, \<open>GeneratorExit\<close>);
  a clause \<open>except Exception\<close> does not catch them.
\<close>

datatype exn =
    HTTPError int
  | RuntimeError string
  | AssertionError string
  | TypeError string
  | AttributeError string
  | OtherException string
  | BaseOnly string

fun is_Exception :: "exn \<Rightarrow> bool" where
  "is_Exception (BaseOnly _) = False"
| "is_Exception _ = True"

text \<open>
  The request with its transport. \<open>http_method\<close> is \<open>request.method\<close>; \<open>written\<close> is
  the log of \<open>request.write(data, callback)\<close> calls, oldest first; \<open>request_finished\<close> records \<open>request.finish()\<close>; \<open>connection\<close>
  is \<open>None\<close> when the request object has no attribute \<open>connection\<close>, and otherwise holds
  the close callback registered on the connection.
\<close>

record request =
  http_method :: string
  request_headers :: headers
  connection :: "callback option option"
  written :: "(bytes \<times> callback option) list"
  request_finished :: bool

text \<open>An output transform: the two methods \<open>flush\<close> calls on it.\<close>

record transform =
  transform_first_chunk :: "int \<Rightarrow> headers \<Rightarrow> bytes \<Rightarrow> bool \<Rightarrow> int \<times> headers \<times> bytes"
  transform_chunk :: "bytes \<Rightarrow> bool \<Rightarrow> bytes"

text \<open>
  The attributes of a \<open>RequestHandler\<close>. \<open>transforms\<close> is \<open>None\<close> between construction
  and \<open>_execute\<close> (\<open>self._transforms = None\<close>).
\<close>

record handler =
  request :: request
  headers_written :: bool
  finished :: bool
  auto_finish :: bool
  transforms :: "transform list option"
  status_code :: int
  headers :: headers
  write_buffer :: "bytes list"

text \<open>The outcome of a method: the exception raised, if any, and the handler afterwards.\<close>

type_synonym outcome = "exn option \<times> handler"

text \<open>
  What the handler class takes from outside the repository: the class constant
  \<open>SUPPORTED_METHODS\<close>, the hooks \<open>initialize\<close>, \<open>prepare\<close> and \<open>on_finish\<close>, and the
  inherited methods \<open>check_xsrf_cookie\<close>, \<open>_when_complete\<close>, \<open>_handle_request_exception\<close>,
  \<open>compute_etag\<close>, \<open>check_etag_header\<close> and \<open>_generate_headers\<close>. \<open>not_allowed_304\<close> is
  the list of header names that \<open>_clear_headers_for_304\<close> removes, and \<open>default_headers\<close>
  the headers \<open>clear\<close> starts a response with. The result of \<open>prepare\<close> is \<open>None\<close> or a
  future, named by a number.
\<close>

record handler_class =
  SUPPORTED_METHODS :: "string list"
  initialize :: "(string \<times> string) list \<Rightarrow> handler \<Rightarrow> outcome"
  prepare :: "handler \<Rightarrow> (exn + nat option) \<times> handler"
  on_finish :: "handler \<Rightarrow> outcome"
  check_xsrf_cookie :: "handler \<Rightarrow> outcome"
  when_complete :: "nat option \<Rightarrow> (handler \<Rightarrow> outcome) \<Rightarrow> handler \<Rightarrow> outcome"
  handle_request_exception :: "exn \<Rightarrow> handler \<Rightarrow> outcome"
  compute_etag :: "bytes list \<Rightarrow> string"
  check_etag_header :: "handler \<Rightarrow> bool"
  generate_headers :: "handler \<Rightarrow> bytes"
  not_allowed_304 :: "string list"
  default_headers :: "request \<Rightarrow> headers"

text \<open>
  The application: its \<open>settings\<close> dictionary (values by their truth value) and the
  \<open>_handle_request\<close> method of its root module, \<open>None\<close> when the application was built
  from a handler only (\<open>self.root = None\<close>).
\<close>

record application =
  settings :: "string \<rightharpoonup> bool"
  root :: "(handler \<Rightarrow> outcome) option"

subsection \<open>Sequencing\<close>

text \<open>Runs \<open>f\<close> on the handler left by a call that returned; an exception ends the method.\<close>

definition and_then :: "outcome \<Rightarrow> (handler \<Rightarrow> outcome) \<Rightarrow> outcome" where
  "and_then r f = (case r of (None, h) \<Rightarrow> f h | (Some e, h) \<Rightarrow> (Some e, h))"

subsection \<open>The transport\<close>

text \<open>
  Modelled from the spec: the transport collaborator is not part of the repository; it
  ``must provide \<open>write(bytes, callback)\<close> and \<open>finish()\<close> on a connection-like object, and
  a \<open>connection.set_close_callback(fn_or_none)\<close> hook''. A write is appended to the log.
\<close>

definition request_write :: "bytes \<Rightarrow> callback option \<Rightarrow> handler \<Rightarrow> handler" where
  "request_write data cb h =
     h\<lparr>request := (request h)\<lparr>written := written (request h) @ [(data, cb)]\<rparr>\<rparr>"

definition request_finish :: "handler \<Rightarrow> handler" where
  "request_finish h = h\<lparr>request := (request h)\<lparr>request_finished := True\<rparr>\<rparr>"

definition set_close_callback :: "callback option \<Rightarrow> handler \<Rightarrow> handler" where
  "set_close_callback cb h = h\<lparr>request := (request h)\<lparr>connection := Some cb\<rparr>\<rparr>"

subsection \<open>Inherited methods that store a value\<close>

text \<open>
  Modelled from the spec: \<open>write\<close> (here \<open>write_chunk\<close>) is inherited; a final chunk
  ``is appended via the same write path used by ordinary writes'', and ``no write buffer mutation is permitted after
  \<open>finished\<close> becomes true''.
\<close>

definition write_chunk :: "bytes \<Rightarrow> handler \<Rightarrow> outcome" where
  "write_chunk chunk h =
     (if finished h then (Some (RuntimeError ''Cannot write() after finish()''), h)
      else (None, h\<lparr>write_buffer := write_buffer h @ [chunk]\<rparr>))"

text \<open>
  Modelled from the spec: \<open>set_header\<close> and \<open>set_status\<close> are inherited; the header
  mapping has unique keys, and a header that is set replaces the one of the same name.
\<close>

definition set_header :: "string \<Rightarrow> string \<Rightarrow> handler \<Rightarrow> handler" where
  "set_header name v h = h\<lparr>headers := AList.update name v (headers h)\<rparr>"

definition set_status :: "int \<Rightarrow> handler \<Rightarrow> handler" where
  "set_status code h = h\<lparr>status_code := code\<rparr>"

text \<open>
  Modelled from the spec: \<open>set_etag_header\<close> is inherited; \<open>finish\<close> is to ``compute and
  set an ETag''. The hash is \<open>compute_etag\<close>, over the buffered chunks.
\<close>

definition set_etag_header :: "handler_class \<Rightarrow> handler \<Rightarrow> handler" where
  "set_etag_header cls h = set_header ''Etag'' (compute_etag cls (write_buffer h)) h"

text \<open>
  Modelled from the spec: \<open>_clear_headers_for_304\<close> is inherited; it is to ``strip headers
  disallowed on 304 responses''.
\<close>

definition clear_headers_for_304 :: "handler_class \<Rightarrow> handler \<Rightarrow> handler" where
  "clear_headers_for_304 cls h =
     h\<lparr>headers := filter (\<lambda>kv. fst kv \<notin> set (not_allowed_304 cls)) (headers h)\<rparr>"

text \<open>
  Modelled from the spec: \<open>clear\<close> is inherited; construction ``clears state'': default
  headers, an empty buffer and status 200.
\<close>

definition clear :: "handler_class \<Rightarrow> handler \<Rightarrow> handler" where
  "clear cls h =
     h\<lparr>headers := default_headers cls (request h), write_buffer := [], status_code := 200\<rparr>"

text \<open>Python's \<open>str\<close> of a non-negative integer, as \<open>set_header\<close> stores a number.\<close>

definition digit_char :: "nat \<Rightarrow> char" where
  "digit_char d = ''0123456789'' ! d"

fun str_nat :: "nat \<Rightarrow> string" where
  "str_nat n = (if n < 10 then [digit_char n] else str_nat (n div 10) @ [digit_char (n mod 10)])"

declare str_nat.simps [simp del]

subsection \<open>\<open>RequestHandler.flush\<close>\<close>

text \<open>The two loops over the transforms (lines 128--131 and 134--135).\<close>

definition run_first_chunk ::
  "transform list \<Rightarrow> bool \<Rightarrow> int \<times> headers \<times> bytes \<Rightarrow> int \<times> headers \<times> bytes" where
  "run_first_chunk ts include_footers s =
     fold (\<lambda>t (st, hs, c). transform_first_chunk t st hs c include_footers) ts s"

definition run_chunk :: "transform list \<Rightarrow> bool \<Rightarrow> bytes \<Rightarrow> bytes" where
  "run_chunk ts include_footers c = fold (\<lambda>t c. transform_chunk t c include_footers) ts c"

text \<open>
  Lines 138--144, common to both branches: a HEAD request gets the header block alone, and
  only when it is not empty; any other request gets the header block and the chunk.
\<close>

definition flush_send :: "bytes \<Rightarrow> bytes \<Rightarrow> callback option \<Rightarrow> handler \<Rightarrow> outcome" where
  "flush_send hdrs chunk cb h =
     (if http_method (request h) = ''HEAD'' then
        (if hdrs \<noteq> [] then (None, request_write hdrs cb h) else (None, h))
      else (None, request_write (hdrs @ chunk) cb h))"

text \<open>
  \<open>flush\<close>, lines 115--144. Iterating over \<open>self._transforms\<close> while it is still \<open>None\<close>
  raises \<open>TypeError\<close>; on the first flush this happens after \<open>_headers_written\<close> is set.
\<close>

definition flush :: "handler_class \<Rightarrow> bool \<Rightarrow> callback option \<Rightarrow> handler \<Rightarrow> outcome" where
  "flush cls include_footers cb h =
     (let chunk = concat (write_buffer h);
          h1 = h\<lparr>write_buffer := []\<rparr>
      in if \<not> headers_written h1 then
           (let h2 = h1\<lparr>headers_written := True\<rparr> in
            case transforms h2 of
              None \<Rightarrow> (Some (TypeError ''NoneType object is not iterable''), h2)
            | Some ts \<Rightarrow>
                (case run_first_chunk ts include_footers (status_code h2, headers h2, chunk) of
                   (st, hs, chunk') \<Rightarrow>
                     (let h3 = h2\<lparr>status_code := st, headers := hs\<rparr>
                      in flush_send (generate_headers cls h3) chunk' cb h3)))
         else
           (case transforms h1 of
              None \<Rightarrow> (Some (TypeError ''NoneType object is not iterable''), h1)
            | Some ts \<Rightarrow> flush_send [] (run_chunk ts include_footers chunk) cb h1))"

subsection \<open>\<open>RequestHandler.finish\<close>\<close>

text \<open>Lines 153--154: the optional final chunk goes through \<open>write\<close>.\<close>

definition write_final :: "bytes option \<Rightarrow> handler \<Rightarrow> outcome" where
  "write_final chunk h = (case chunk of None \<Rightarrow> (None, h) | Some c \<Rightarrow> write_chunk c h)"

text \<open>
  Lines 159--165: for a GET or HEAD response with status 200 and no \<open>Etag\<close> header, set
  the ETag and, when the request's conditional header matches it, drop the body and answer
  304.
\<close>

definition finish_etag :: "handler_class \<Rightarrow> handler \<Rightarrow> handler" where
  "finish_etag cls h =
     (if status_code h = 200 \<and> http_method (request h) \<in> {''GET'', ''HEAD''}
         \<and> map_of (headers h) ''Etag'' = None
      then (let h1 = set_etag_header cls h
            in if check_etag_header cls h1 then set_status 304 (h1\<lparr>write_buffer := []\<rparr>)
               else h1)
      else h)"

text \<open>
  Lines 158--171: what \<open>finish\<close> does to the headers while they are not yet written. The
  \<open>assert\<close> of line 167 raises \<open>AssertionError\<close> on a 304 response with a buffered body.
\<close>

definition finish_headers :: "handler_class \<Rightarrow> handler \<Rightarrow> outcome" where
  "finish_headers cls h =
     (if \<not> headers_written h then
        (let h1 = finish_etag cls h
         in if status_code h1 = 304 then
              (if write_buffer h1 \<noteq> [] then (Some (AssertionError ''Cannot send body with 304''), h1)
               else (None, clear_headers_for_304 cls h1))
            else if map_of (headers h1) ''Content-Length'' = None then
              (None, set_header ''Content-Length''
                       (str_nat (sum_list (map length (write_buffer h1)))) h1)
            else (None, h1))
      else (None, h))"

text \<open>
  \<open>Application.log_request\<close> (lines 62--63), reached through \<open>self._log()\<close>, prints its
  argument; standard output is not part of the state, so the handler is unchanged.
\<close>

definition log_request :: "handler \<Rightarrow> handler" where
  "log_request h = h"

text \<open>Lines 173--178: the close callback is detached when the request has a connection.\<close>

definition detach_close_callback :: "handler \<Rightarrow> handler" where
  "detach_close_callback h =
     (case connection (request h) of None \<Rightarrow> h | Some _ \<Rightarrow> set_close_callback None h)"

text \<open>
  Lines 181--184, after the final flush: finish the request, log, set \<open>_finished\<close> and
  call the hook \<open>on_finish\<close>.
\<close>

definition finish_done :: "handler_class \<Rightarrow> handler \<Rightarrow> outcome" where
  "finish_done cls h = on_finish cls ((log_request (request_finish h))\<lparr>finished := True\<rparr>)"

text \<open>\<open>finish\<close>, lines 146--184.\<close>

definition finish :: "handler_class \<Rightarrow> bytes option \<Rightarrow> handler \<Rightarrow> outcome" where
  "finish cls chunk h =
     (if finished h then
        (Some (RuntimeError ''finish() called twice.  May be caused by using async operations without the @asynchronous decorator.''), h)
      else and_then (write_final chunk h)
             (\<lambda>h1. and_then (finish_headers cls h1)
                (\<lambda>h2. and_then (flush cls True None (detach_close_callback h2))
                   (finish_done cls))))"

text \<open>
  The handler on which \<open>finish\<close> calls its final flush (line 180), when the lines before
  it raise nothing.
\<close>

definition before_final_flush :: "handler_class \<Rightarrow> bytes option \<Rightarrow> handler \<Rightarrow> handler" where
  "before_final_flush cls chunk h =
     detach_close_callback (snd (finish_headers cls (snd (write_final chunk h))))"

subsection \<open>\<open>RequestHandler._execute\<close> and construction\<close>

text \<open>
  \<open>_execute_method\<close>, lines 211--212. Without a root module \<open>self.application.root\<close> is
  \<open>None\<close> and the attribute access raises.
\<close>

definition execute_method :: "application \<Rightarrow> handler \<Rightarrow> outcome" where
  "execute_method app h =
     (case root app of
        None \<Rightarrow> (Some (AttributeError ''NoneType object has no attribute _handle_request''), h)
      | Some handle_request \<Rightarrow> handle_request h)"

text \<open>
  The body of the \<open>try\<close> statement, lines 199--207. The argument \<open>self.prepare()\<close> is
  evaluated before \<open>_when_complete\<close> is called.
\<close>

definition execute_try :: "handler_class \<Rightarrow> application \<Rightarrow> handler \<Rightarrow> outcome" where
  "execute_try cls app h =
     (if http_method (request h) \<notin> set (SUPPORTED_METHODS cls) then (Some (HTTPError 405), h)
      else and_then
             (if http_method (request h) \<notin> {''GET'', ''HEAD'', ''OPTIONS''}
                 \<and> settings app ''xsrf_cookies'' = Some True
              then check_xsrf_cookie cls h else (None, h))
             (\<lambda>h1. case prepare cls h1 of
                      (Inl e, h2) \<Rightarrow> (Some e, h2)
                    | (Inr r, h2) \<Rightarrow> when_complete cls r (execute_method app) h2))"

text \<open>
  \<open>_execute\<close>, lines 195--209. The clause \<open>except Exception as e\<close> hands an exception of
  class \<open>Exception\<close> to \<open>_handle_request_exception\<close>; any other one leaves \<open>_execute\<close>.
\<close>

definition execute ::
  "handler_class \<Rightarrow> application \<Rightarrow> transform list \<Rightarrow> handler \<Rightarrow> outcome" where
  "execute cls app ts h =
     (case execute_try cls app (h\<lparr>transforms := Some ts\<rparr>) of
        (None, h1) \<Rightarrow> (None, h1)
      | (Some e, h1) \<Rightarrow>
          if is_Exception e then handle_request_exception cls e h1 else (Some e, h1))"

text \<open>
  \<open>RequestHandler.__init__\<close>, lines 67--80. The status, the headers and the buffer are
  first assigned by \<open>clear\<close>; the values given to them here are never read. The reference
  \<open>self.application\<close> is passed to the methods that use it.
\<close>

definition RequestHandler_init ::
  "handler_class \<Rightarrow> request \<Rightarrow> (string \<times> string) list \<Rightarrow> outcome" where
  "RequestHandler_init cls req kwargs =
     initialize cls kwargs
       (clear cls \<lparr>request = req, headers_written = False, finished = False,
                   auto_finish = False, transforms = None,
                   status_code = 0, headers = [], write_buffer = []\<rparr>)"

text \<open>
  \<open>Application.__call__\<close>, lines 46--52: a handler is constructed without keyword
  arguments and executed with an empty list of transforms.
\<close>

definition Application_call :: "handler_class \<Rightarrow> application \<Rightarrow> request \<Rightarrow> outcome" where
  "Application_call cls app req = and_then (RequestHandler_init cls req []) (execute cls app [])"

text \<open>
  Lines 204--206 on their own: the XSRF check, made for a method other than GET, HEAD and
  OPTIONS when the setting \<open>xsrf_cookies\<close> is on.
\<close>

definition xsrf_stage :: "handler_class \<Rightarrow> application \<Rightarrow> handler \<Rightarrow> outcome" where
  "xsrf_stage cls app h =
     (if http_method (request h) \<notin> {''GET'', ''HEAD'', ''OPTIONS''}
         \<and> settings app ''xsrf_cookies'' = Some True
      then check_xsrf_cookie cls h else (None, h))"

subsection \<open>Sequences of operations\<close>

text \<open>
  A caller's sequence of \<open>flush\<close> and \<open>finish\<close> calls on one handler. A call that raises
  leaves the handler as it was at the \<open>raise\<close>, and the next call goes on from there.
  \<open>run\<close> lists the handler before the first call and after each call.
\<close>

datatype operation = Flush bool "callback option" | Finish "bytes option"

fun step :: "handler_class \<Rightarrow> operation \<Rightarrow> handler \<Rightarrow> handler" where
  "step cls (Flush include_footers cb) h = snd (flush cls include_footers cb h)"
| "step cls (Finish chunk) h = snd (finish cls chunk h)"

fun run :: "handler_class \<Rightarrow> operation list \<Rightarrow> handler \<Rightarrow> handler list" where
  "run cls [] h = [h]"
| "run cls (x # xs) h = h # run cls xs (step cls x h)"

text \<open>
  The changes of a flag along a list of states: every place where the value differs from
  the one before, as the pair (before, after).
\<close>

fun changes :: "bool list \<Rightarrow> (bool \<times> bool) list" where
  "changes (a # b # bs) = (if a \<noteq> b then [(a, b)] else []) @ changes (b # bs)"
| "changes bs = []"

text \<open>A finished response has its headers written and nothing left in the buffer.\<close>

definition settled :: "handler \<Rightarrow> bool" where
  "settled h \<longleftrightarrow> (finished h \<longrightarrow> headers_written h \<and> write_buffer h = [])"

subsection \<open>A concrete handler class\<close>

text \<open>
  A handler class with plain hooks, used to run the methods on concrete requests: the hooks
  do nothing, \<open>prepare\<close> returns \<open>None\<close>, the XSRF check wants the header \<open>X-Xsrftoken\<close>,
  the exception handler stores the status of the error, the ETag is the body between
  brackets, and the header block is a status line followed by one line per header.
\<close>

definition crlf :: bytes where
  "crlf = [CHR 0x0D, CHR 0x0A]"

definition render_headers :: "handler \<Rightarrow> bytes" where
  "render_headers h =
     ''HTTP/1.1 '' @ str_nat (nat (status_code h)) @ crlf
     @ concat (map (\<lambda>kv. fst kv @ '': '' @ snd kv @ crlf) (headers h)) @ crlf"

definition plain_class :: handler_class where
  "plain_class =
     \<lparr>SUPPORTED_METHODS = [''GET'', ''HEAD'', ''POST'', ''DELETE'', ''PATCH'', ''PUT'', ''OPTIONS''],
      initialize = (\<lambda>kwargs h. (None, h)),
      prepare = (\<lambda>h. (Inr None, h)),
      on_finish = (\<lambda>h. (None, h)),
      check_xsrf_cookie =
        (\<lambda>h. if map_of (request_headers (request h)) ''X-Xsrftoken'' = None
              then (Some (HTTPError 403), h) else (None, h)),
      when_complete = (\<lambda>r k h. case r of None \<Rightarrow> k h | Some _ \<Rightarrow> (None, h)),
      handle_request_exception =
        (\<lambda>e h. (None, h\<lparr>status_code := (case e of HTTPError c \<Rightarrow> c | _ \<Rightarrow> 500)\<rparr>)),
      compute_etag = (\<lambda>parts. ''['' @ concat parts @ '']''),
      check_etag_header =
        (\<lambda>h. case map_of (headers h) ''Etag'' of
                None \<Rightarrow> False
              | Some e \<Rightarrow> map_of (request_headers (request h)) ''If-None-Match'' = Some e),
      generate_headers = render_headers,
      not_allowed_304 =
        [''Allow'', ''Content-Encoding'', ''Content-Language'', ''Content-Length'',
         ''Content-MD5'', ''Content-Range'', ''Content-Type'', ''Last-Modified''],
      default_headers = (\<lambda>req. [(''Content-Type'', ''text/html'')])\<rparr>"

text \<open>A request with the given method and request headers, nothing written yet.\<close>

definition new_request :: "string \<Rightarrow> headers \<Rightarrow> request" where
  "new_request m hs =
     \<lparr>http_method = m, request_headers = hs, connection = Some (Some 7), written = [],
      request_finished = False\<rparr>"

text \<open>
  A handler as \<open>Application.__call__\<close> has it when the routing collaborator runs:
  constructed by \<open>plain_class\<close>, with the empty list of transforms.
\<close>

definition started :: "request \<Rightarrow> handler" where
  "started req = (snd (RequestHandler_init plain_class req []))\<lparr>transforms := Some []\<rparr>"

text \<open>A routing collaborator that writes \<open>body\<close> and finishes the response.\<close>

definition serve :: "bytes list \<Rightarrow> handler \<Rightarrow> outcome" where
  "serve body h = finish plain_class None (h\<lparr>write_buffer := write_buffer h @ body\<rparr>)"

text \<open>An application with XSRF protection switched on, routing every request to \<open>serve\<close>.\<close>

definition plain_app :: application where
  "plain_app = \<lparr>settings = [''xsrf_cookies'' \<mapsto> True], root = Some (serve [''hello''])\<rparr>"

text \<open>A handler class that supports GET and HEAD only.\<close>

definition get_head_class :: handler_class where
  "get_head_class = plain_class\<lparr>SUPPORTED_METHODS := [''GET'', ''HEAD'']\<rparr>"

text \<open>A \<open>prepare\<close> hook that marks the handler, to tell whether it has run.\<close>

definition marking_prepare :: "handler \<Rightarrow> (exn + nat option) \<times> handler" where
  "marking_prepare h = (Inr None, h\<lparr>headers := [(''X-Prepared'', ''yes'')]\<rparr>)"

text \<open>A handler class whose \<open>prepare\<close> hook calls \<open>sys.exit()\<close>, which raises \<open>SystemExit\<close>.\<close>

definition exiting_prepare :: "handler \<Rightarrow> (exn + nat option) \<times> handler" where
  "exiting_prepare h = (Inl (BaseOnly ''SystemExit''), h)"

definition exiting_class :: handler_class where
  "exiting_class = plain_class\<lparr>prepare := exiting_prepare\<rparr>"

text \<open>A handler class whose \<open>prepare\<close> hook raises a \<open>ValueError\<close>.\<close>

definition failing_prepare :: "handler \<Rightarrow> (exn + nat option) \<times> handler" where
  "failing_prepare h = (Inl (OtherException ''ValueError''), h)"

definition failing_class :: handler_class where
  "failing_class = plain_class\<lparr>prepare := failing_prepare\<rparr>"




section \<open>Properties\<close>

lemmas model_defs =
  flush_def flush_send_def request_write_def request_finish_def set_close_callback_def
  write_chunk_def set_header_def set_status_def set_etag_header_def clear_headers_for_304_def
  clear_def run_first_chunk_def run_chunk_def write_final_def finish_etag_def
  finish_headers_def log_request_def detach_close_callback_def finish_done_def finish_def
  before_final_flush_def execute_method_def
  execute_try_def execute_def RequestHandler_init_def Application_call_def and_then_def

lemmas demo_defs =
  plain_class_def new_request_def started_def serve_def render_headers_def crlf_def
  plain_app_def
  str_nat.simps digit_char_def

subsection \<open>Facts about \<open>flush\<close>\<close>

lemma flush_send_finished: "finished (snd (flush_send hdrs c cb h)) = finished h"
  by (simp add: flush_send_def request_write_def)

lemma flush_finished: "finished (snd (flush cls i cb h)) = finished h"
  by (simp add: flush_def Let_def flush_send_finished split: option.splits prod.splits)

text \<open>
  C2. On a HEAD request a flush writes nothing to the transport or exactly one item, the
  non-empty header block generated on the first flush; whatever is in the write buffer,
  no chunk is sent.
\<close>

theorem flush_head_sends_no_body:
  "http_method (request h) = ''HEAD'' \<Longrightarrow>
     written (request (snd (flush cls include_footers cb h))) = written (request h)
     \<or> (\<not> headers_written h
        \<and> generate_headers cls ((snd (flush cls include_footers cb h))\<lparr>request := request h\<rparr>) \<noteq> []
        \<and> written (request (snd (flush cls include_footers cb h))) =
            written (request h) @
              [(generate_headers cls ((snd (flush cls include_footers cb h))\<lparr>request := request h\<rparr>), cb)])"
  by (auto simp: flush_def Let_def flush_send_def request_write_def
           split: option.splits prod.splits)

theorem flush_head_sends_no_body_witness:
  "http_method (request ((started (new_request ''HEAD'' []))\<lparr>write_buffer := [''ab'', ''cd'']\<rparr>)) = ''HEAD''
   \<and> fst (flush plain_class False None
         ((started (new_request ''HEAD'' []))\<lparr>write_buffer := [''ab'', ''cd'']\<rparr>)) = None
   \<and> written (request (snd (flush plain_class False None
         ((started (new_request ''HEAD'' []))\<lparr>write_buffer := [''ab'', ''cd'']\<rparr>)))) =
       [(''HTTP/1.1 200'' @ crlf @ ''Content-Type: text/html'' @ crlf @ crlf, None)]"
proof -
  let ?h = "(started (new_request ''HEAD'' []))\<lparr>write_buffer := [''ab'', ''cd'']\<rparr>"
  have m: "http_method (request ?h) = ''HEAD''"
    by (simp add: model_defs demo_defs)
  have r: "fst (flush plain_class False None ?h) = None"
    by (simp add: model_defs demo_defs)
  show ?thesis
    using m r flush_head_sends_no_body [OF m, of plain_class False None]
    by (simp add: model_defs demo_defs)
qed

subsection \<open>Facts about \<open>finish\<close>\<close>

lemma finish_done_sets_finished:
  assumes "\<forall>x. finished x \<longrightarrow> finished (snd (on_finish cls x))"
  shows "finished (snd (finish_done cls h))"
  using assms by (simp add: finish_done_def)

text \<open>
  C1. When a call of \<open>finish\<close> has returned (and the hook \<open>on_finish\<close> does not reset the
  flag \<open>_finished\<close>), a second call raises the \<open>RuntimeError\<close> of line 149 (the error the
  specification calls \<open>DoubleFinishError\<close>) and leaves the handler exactly as it was: nothing is appended to the buffer, no header is changed,
  nothing is flushed and nothing is written to the transport.
\<close>

theorem finish_twice_raises:
  assumes "fst (finish cls chunk h) = None"
    and "\<forall>x. finished x \<longrightarrow> finished (snd (on_finish cls x))"
  shows "finish cls chunk' (snd (finish cls chunk h)) =
           (Some (RuntimeError ''finish() called twice.  May be caused by using async operations without the @asynchronous decorator.''),
            snd (finish cls chunk h))"
proof -
  have "finished (snd (finish cls chunk h))"
    using assms finish_done_sets_finished [of cls]
    by (auto simp: finish_def and_then_def split: if_splits prod.splits option.splits)
  then show ?thesis by (simp add: finish_def)
qed

theorem finish_twice_raises_witness:
  "fst (finish plain_class None
         ((started (new_request ''GET'' []))\<lparr>write_buffer := [''ab'', ''cd'']\<rparr>)) = None
   \<and> fst (finish plain_class (Some ''xy'') (snd (finish plain_class None
         ((started (new_request ''GET'' []))\<lparr>write_buffer := [''ab'', ''cd'']\<rparr>)))) =
       Some (RuntimeError ''finish() called twice.  May be caused by using async operations without the @asynchronous decorator.'')
   \<and> length (written (request (snd (finish plain_class (Some ''xy'') (snd (finish plain_class None
         ((started (new_request ''GET'' []))\<lparr>write_buffer := [''ab'', ''cd'']\<rparr>))))))) = 1"
proof -
  let ?h = "(started (new_request ''GET'' []))\<lparr>write_buffer := [''ab'', ''cd'']\<rparr>"
  have r: "fst (finish plain_class None ?h) = None"
    by (simp add: model_defs demo_defs)
  have q: "\<forall>x. finished x \<longrightarrow> finished (snd (on_finish plain_class x))"
    by (simp add: plain_class_def)
  have w: "length (written (request (snd (finish plain_class None ?h)))) = 1"
    by (simp add: model_defs demo_defs)
  show ?thesis
    using r w finish_twice_raises [OF r q, of "Some ''xy''"] by simp
qed

lemma map_of_filter_keys:
  "map_of (filter (\<lambda>kv. fst kv \<notin> S) xs) k = (if k \<in> S then None else map_of xs k)"
  by (induction xs) auto

lemma write_final_unfinished:
  "\<not> finished h \<Longrightarrow> write_final chunk h =
     (None, h\<lparr>write_buffer := write_buffer h @ (case chunk of None \<Rightarrow> [] | Some c \<Rightarrow> [c])\<rparr>)"
  by (simp add: write_final_def write_chunk_def split: option.splits)

lemma finish_unfinished:
  "\<not> finished h \<Longrightarrow> fst (finish_headers cls (snd (write_final chunk h))) = None \<Longrightarrow>
   finish cls chunk h =
     and_then (flush cls True None (before_final_flush cls chunk h)) (finish_done cls)"
  by (cases "finish_headers cls (snd (write_final chunk h))")
     (simp add: finish_def and_then_def write_final_unfinished before_final_flush_def)

lemma flush_first_plain:
  "\<not> headers_written h \<Longrightarrow> transforms h = Some [] \<Longrightarrow>
   flush cls i cb h =
     flush_send (generate_headers cls (h\<lparr>write_buffer := [], headers_written := True\<rparr>))
       (concat (write_buffer h)) cb (h\<lparr>write_buffer := [], headers_written := True\<rparr>)"
  by (simp add: flush_def Let_def run_first_chunk_def)

lemma detach_fields [simp]:
  "headers_written (detach_close_callback h) = headers_written h"
  "finished (detach_close_callback h) = finished h"
  "transforms (detach_close_callback h) = transforms h"
  "status_code (detach_close_callback h) = status_code h"
  "headers (detach_close_callback h) = headers h"
  "write_buffer (detach_close_callback h) = write_buffer h"
  "http_method (request (detach_close_callback h)) = http_method (request h)"
  "written (request (detach_close_callback h)) = written (request h)"
  by (simp_all add: detach_close_callback_def set_close_callback_def split: option.splits)

lemma finish_headers_frame:
  "transforms (snd (finish_headers cls h)) = transforms h"
  "request (snd (finish_headers cls h)) = request h"
  "headers_written (snd (finish_headers cls h)) = headers_written h"
  by (simp_all add: finish_headers_def finish_etag_def Let_def set_etag_header_def
        set_header_def set_status_def clear_headers_for_304_def)

lemma before_final_flush_frame:
  assumes "\<not> finished h"
  shows "transforms (before_final_flush cls chunk h) = transforms h"
    and "http_method (request (before_final_flush cls chunk h)) = http_method (request h)"
    and "written (request (before_final_flush cls chunk h)) = written (request h)"
    and "headers_written (before_final_flush cls chunk h) = headers_written h"
  using assms
  by (simp_all add: before_final_flush_def finish_headers_frame write_final_unfinished)

text \<open>
  C3. When \<open>finish\<close> runs on a GET or HEAD response with status 200, headers not yet
  written and no \<open>Etag\<close> header, the handler on which it calls the final flush carries
  the header \<open>Etag\<close>, computed from the buffered chunks (the final chunk included), while
  the headers are still unwritten and the transport has received nothing new. (The header
  \<open>Etag\<close> is not among those removed from a 304 response.)
\<close>

theorem finish_sets_etag:
  assumes "\<not> finished h" and "\<not> headers_written h" and "status_code h = 200"
    and "http_method (request h) \<in> {''GET'', ''HEAD''}"
    and "map_of (headers h) ''Etag'' = None"
    and "''Etag'' \<notin> set (not_allowed_304 cls)"
  shows "finish cls chunk h =
           and_then (flush cls True None (before_final_flush cls chunk h)) (finish_done cls)
     \<and> \<not> headers_written (before_final_flush cls chunk h)
     \<and> written (request (before_final_flush cls chunk h)) = written (request h)
     \<and> map_of (headers (before_final_flush cls chunk h)) ''Etag'' =
         Some (compute_etag cls (write_buffer (snd (write_final chunk h))))"
proof -
  let ?h1 = "snd (write_final chunk h)"
  have ok: "fst (finish_headers cls ?h1) = None"
    using assms
    by (simp add: write_final_unfinished finish_headers_def finish_etag_def Let_def
          set_etag_header_def set_header_def set_status_def)
  have a: "finish cls chunk h =
      and_then (flush cls True None (before_final_flush cls chunk h)) (finish_done cls)"
    using assms(1) ok by (rule finish_unfinished)
  have d: "map_of (headers (snd (finish_headers cls ?h1))) ''Etag'' =
         Some (compute_etag cls (write_buffer ?h1))"
    using assms
    by (simp add: write_final_unfinished finish_headers_def finish_etag_def Let_def
          set_etag_header_def set_header_def set_status_def clear_headers_for_304_def
          map_of_filter_keys AList.update_conv')
  then have d': "map_of (headers (before_final_flush cls chunk h)) ''Etag'' =
         Some (compute_etag cls (write_buffer ?h1))"
    by (simp add: before_final_flush_def)
  from a d' assms(2) before_final_flush_frame [OF assms(1), of cls chunk]
  show ?thesis by simp
qed

theorem finish_sets_etag_witness:
  "map_of (headers (before_final_flush plain_class (Some ''cd'')
       ((started (new_request ''GET'' []))\<lparr>write_buffer := [''ab'']\<rparr>))) ''Etag'' = Some ''[abcd]''
   \<and> \<not> headers_written (before_final_flush plain_class (Some ''cd'')
       ((started (new_request ''GET'' []))\<lparr>write_buffer := [''ab'']\<rparr>))
   \<and> written (request (before_final_flush plain_class (Some ''cd'')
       ((started (new_request ''GET'' []))\<lparr>write_buffer := [''ab'']\<rparr>))) = []"
proof -
  let ?h = "(started (new_request ''GET'' []))\<lparr>write_buffer := [''ab'']\<rparr>"
  have 1: "\<not> finished ?h" and 2: "\<not> headers_written ?h" and 3: "status_code ?h = 200"
    and 4: "http_method (request ?h) \<in> {''GET'', ''HEAD''}"
    and 5: "map_of (headers ?h) ''Etag'' = None"
    and 6: "''Etag'' \<notin> set (not_allowed_304 plain_class)"
    by (simp_all add: model_defs demo_defs)
  show ?thesis
    using finish_sets_etag [OF 1 2 3 4 5 6, of "Some ''cd''"]
    by (simp add: model_defs demo_defs)
qed

text \<open>
  C4. Under the same preconditions, when the request's conditional header matches the
  computed ETag, the final flush is called on a handler with status 304, an empty write
  buffer and none of the headers that a 304 response may not carry; with the empty list
  of transforms that \<open>Application.__call__\<close> passes, the header block of that flush is
  generated from status 304 and such headers, and nothing follows it.
\<close>

theorem finish_etag_match_gives_304:
  assumes "\<not> finished h" and "\<not> headers_written h" and "status_code h = 200"
    and "http_method (request h) \<in> {''GET'', ''HEAD''}"
    and "map_of (headers h) ''Etag'' = None"
    and "check_etag_header cls (set_etag_header cls (snd (write_final chunk h)))"
  shows "finish cls chunk h =
           and_then (flush cls True None (before_final_flush cls chunk h)) (finish_done cls)
     \<and> status_code (before_final_flush cls chunk h) = 304
     \<and> write_buffer (before_final_flush cls chunk h) = []
     \<and> (\<forall>k \<in> set (not_allowed_304 cls).
           map_of (headers (before_final_flush cls chunk h)) k = None)
     \<and> (transforms h = Some [] \<longrightarrow>
          (\<exists>hq. status_code hq = 304
             \<and> (\<forall>k \<in> set (not_allowed_304 cls). map_of (headers hq) k = None)
             \<and> fst (flush cls True None (before_final_flush cls chunk h)) = None
             \<and> written (request (snd (flush cls True None (before_final_flush cls chunk h)))) =
                 written (request h) @
                   (if http_method (request h) = ''HEAD'' \<and> generate_headers cls hq = [] then []
                    else [(generate_headers cls hq, None)])))"
proof -
  let ?h1 = "snd (write_final chunk h)"
  let ?hf = "before_final_flush cls chunk h"
  have fh: "finish_headers cls ?h1 =
      (None, clear_headers_for_304 cls (set_status 304 ((set_etag_header cls ?h1)\<lparr>write_buffer := []\<rparr>)))"
    using assms
    by (simp add: write_final_unfinished finish_headers_def finish_etag_def Let_def
          set_etag_header_def set_header_def set_status_def)
  have a: "finish cls chunk h = and_then (flush cls True None ?hf) (finish_done cls)"
    using assms(1) fh by (simp add: finish_unfinished)
  have b: "status_code ?hf = 304"
    by (simp add: before_final_flush_def fh clear_headers_for_304_def set_status_def)
  have c: "write_buffer ?hf = []"
    by (simp add: before_final_flush_def fh clear_headers_for_304_def set_status_def)
  have d: "\<forall>k \<in> set (not_allowed_304 cls). map_of (headers ?hf) k = None"
    by (simp add: before_final_flush_def fh clear_headers_for_304_def map_of_filter_keys)
  have e: "\<exists>hq. status_code hq = 304
             \<and> (\<forall>k \<in> set (not_allowed_304 cls). map_of (headers hq) k = None)
             \<and> fst (flush cls True None ?hf) = None
             \<and> written (request (snd (flush cls True None ?hf))) =
                 written (request h) @
                   (if http_method (request h) = ''HEAD'' \<and> generate_headers cls hq = [] then []
                    else [(generate_headers cls hq, None)])"
    if t: "transforms h = Some []"
  proof -
    let ?hq = "?hf\<lparr>write_buffer := [], headers_written := True\<rparr>"
    have hw: "\<not> headers_written ?hf" and tr: "transforms ?hf = Some []"
      using t assms(2) before_final_flush_frame [OF assms(1), of cls chunk] by simp_all
    have fl: "flush cls True None ?hf =
        flush_send (generate_headers cls ?hq) (concat (write_buffer ?hf)) None ?hq"
      using hw tr by (rule flush_first_plain)
    have m: "http_method (request ?hf) = http_method (request h)"
      and w: "written (request ?hf) = written (request h)"
      using before_final_flush_frame [OF assms(1), of cls chunk] by simp_all
    have "status_code ?hq = 304" using b by simp
    moreover have "\<forall>k \<in> set (not_allowed_304 cls). map_of (headers ?hq) k = None"
      using d by simp
    moreover have "fst (flush cls True None ?hf) = None"
      by (simp add: fl flush_send_def)
    moreover have "written (request (snd (flush cls True None ?hf))) =
                 written (request h) @
                   (if http_method (request h) = ''HEAD'' \<and> generate_headers cls ?hq = [] then []
                    else [(generate_headers cls ?hq, None)])"
      using m w c by (simp add: fl flush_send_def request_write_def)
    ultimately show ?thesis by blast
  qed
  from a b c d e show ?thesis by blast
qed

theorem finish_etag_match_gives_304_witness:
  "status_code (before_final_flush plain_class None
       ((started (new_request ''GET'' [(''If-None-Match'', ''[abcd]'')]))\<lparr>write_buffer := [''ab'', ''cd'']\<rparr>)) = 304
   \<and> headers (before_final_flush plain_class None
       ((started (new_request ''GET'' [(''If-None-Match'', ''[abcd]'')]))\<lparr>write_buffer := [''ab'', ''cd'']\<rparr>)) =
       [(''Etag'', ''[abcd]'')]
   \<and> written (request (snd (finish plain_class None
       ((started (new_request ''GET'' [(''If-None-Match'', ''[abcd]'')]))\<lparr>write_buffer := [''ab'', ''cd'']\<rparr>)))) =
       [(''HTTP/1.1 304'' @ crlf @ ''Etag: [abcd]'' @ crlf @ crlf, None)]"
proof -
  let ?h = "(started (new_request ''GET'' [(''If-None-Match'', ''[abcd]'')]))\<lparr>write_buffer := [''ab'', ''cd'']\<rparr>"
  have 1: "\<not> finished ?h" and 2: "\<not> headers_written ?h" and 3: "status_code ?h = 200"
    and 4: "http_method (request ?h) \<in> {''GET'', ''HEAD''}"
    and 5: "map_of (headers ?h) ''Etag'' = None"
    and 6: "check_etag_header plain_class (set_etag_header plain_class (snd (write_final None ?h)))"
    by (simp_all add: model_defs demo_defs)
  show ?thesis
    using finish_etag_match_gives_304 [OF 1 2 3 4 5 6]
    by (simp add: model_defs demo_defs)
qed

lemma finish_etag_content_length:
  "map_of (headers (finish_etag cls h)) ''Content-Length'' = map_of (headers h) ''Content-Length''"
  by (simp add: finish_etag_def Let_def set_etag_header_def set_header_def set_status_def
        AList.update_conv')

lemma finish_etag_buffer:
  "status_code (finish_etag cls h) \<noteq> 304 \<Longrightarrow> write_buffer (finish_etag cls h) = write_buffer h"
  by (auto simp: finish_etag_def Let_def set_etag_header_def set_header_def set_status_def
      split: if_splits)

text \<open>
  C5. For an unfinished handler without a \<open>Content-Length\<close> header, the handler on which
  \<open>finish\<close> calls the final flush has either no such header or the decimal sum of the
  lengths of the buffered chunks at the time of \<open>finish\<close> (the final chunk included).
  When the headers are unwritten and the response is not a 304, it has the sum, and the
  buffer is intact; with no transforms and a method other than HEAD, the final flush then
  writes one item: a header block generated from headers with that \<open>Content-Length\<close>,
  followed by the concatenated chunks. For the buffer \<open>[b"ab", b"cd"]\<close> this is
  \<open>Content-Length: 4\<close> and then \<open>abcd\<close>.
\<close>

theorem finish_content_length:
  assumes "\<not> finished h" and "map_of (headers h) ''Content-Length'' = None"
  shows "(map_of (headers (before_final_flush cls chunk h)) ''Content-Length'' = None
          \<or> map_of (headers (before_final_flush cls chunk h)) ''Content-Length'' =
              Some (str_nat (sum_list (map length (write_buffer (snd (write_final chunk h)))))))
     \<and> (\<not> headers_written h \<and> status_code (finish_etag cls (snd (write_final chunk h))) \<noteq> 304 \<longrightarrow>
          finish cls chunk h =
            and_then (flush cls True None (before_final_flush cls chunk h)) (finish_done cls)
          \<and> write_buffer (before_final_flush cls chunk h) = write_buffer (snd (write_final chunk h))
          \<and> map_of (headers (before_final_flush cls chunk h)) ''Content-Length'' =
              Some (str_nat (sum_list (map length (write_buffer (snd (write_final chunk h))))))
          \<and> (transforms h = Some [] \<and> http_method (request h) \<noteq> ''HEAD'' \<longrightarrow>
               (\<exists>hq. map_of (headers hq) ''Content-Length'' =
                        Some (str_nat (sum_list (map length (write_buffer (snd (write_final chunk h))))))
                  \<and> written (request (snd (flush cls True None (before_final_flush cls chunk h)))) =
                      written (request h) @
                        [(generate_headers cls hq
                            @ concat (write_buffer (snd (write_final chunk h))), None)])))"
proof -
  let ?h1 = "snd (write_final chunk h)"
  let ?hf = "before_final_flush cls chunk h"
  let ?n = "str_nat (sum_list (map length (write_buffer ?h1)))"
  have cl1: "map_of (headers ?h1) ''Content-Length'' = None"
    using assms by (simp add: write_final_unfinished)
  have cl2: "map_of (headers (finish_etag cls ?h1)) ''Content-Length'' = None"
    using cl1 by (simp add: finish_etag_content_length)
  have general: "map_of (headers ?hf) ''Content-Length'' = None
          \<or> map_of (headers ?hf) ''Content-Length'' = Some ?n"
  proof (cases "headers_written ?h1 \<or> status_code (finish_etag cls ?h1) = 304")
    case True
    then have "map_of (headers ?hf) ''Content-Length'' = None"
      using cl1 cl2
      by (auto simp: before_final_flush_def finish_headers_def Let_def
            clear_headers_for_304_def map_of_filter_keys)
    then show ?thesis by simp
  next
    case False
    then have "map_of (headers ?hf) ''Content-Length'' = Some ?n"
      using cl2
      by (simp add: before_final_flush_def finish_headers_def Let_def set_header_def
            AList.update_conv' finish_etag_buffer)
    then show ?thesis by simp
  qed
  have special: "finish cls chunk h = and_then (flush cls True None ?hf) (finish_done cls)
          \<and> write_buffer ?hf = write_buffer ?h1
          \<and> map_of (headers ?hf) ''Content-Length'' = Some ?n
          \<and> (transforms h = Some [] \<and> http_method (request h) \<noteq> ''HEAD'' \<longrightarrow>
               (\<exists>hq. map_of (headers hq) ''Content-Length'' = Some ?n
                  \<and> written (request (snd (flush cls True None ?hf))) =
                      written (request h) @
                        [(generate_headers cls hq @ concat (write_buffer ?h1), None)]))"
    if hw: "\<not> headers_written h" and st: "status_code (finish_etag cls ?h1) \<noteq> 304"
  proof -
    have hw1: "\<not> headers_written ?h1"
      using hw assms(1) by (simp add: write_final_unfinished)
    have fh: "finish_headers cls ?h1 =
        (None, set_header ''Content-Length'' ?n (finish_etag cls ?h1))"
      using hw1 st cl2 by (simp add: finish_headers_def Let_def finish_etag_buffer)
    have a: "finish cls chunk h = and_then (flush cls True None ?hf) (finish_done cls)"
      using assms(1) fh by (simp add: finish_unfinished)
    have b: "write_buffer ?hf = write_buffer ?h1"
      using st by (simp add: before_final_flush_def fh set_header_def finish_etag_buffer)
    have c: "map_of (headers ?hf) ''Content-Length'' = Some ?n"
      by (simp add: before_final_flush_def fh set_header_def AList.update_conv')
    have d: "\<exists>hq. map_of (headers hq) ''Content-Length'' = Some ?n
                  \<and> written (request (snd (flush cls True None ?hf))) =
                      written (request h) @
                        [(generate_headers cls hq @ concat (write_buffer ?h1), None)]"
      if t: "transforms h = Some []" and nh: "http_method (request h) \<noteq> ''HEAD''"
    proof -
      let ?hq = "?hf\<lparr>write_buffer := [], headers_written := True\<rparr>"
      have "\<not> headers_written ?hf" and "transforms ?hf = Some []"
        using t hw before_final_flush_frame [OF assms(1), of cls chunk] by simp_all
      then have fl: "flush cls True None ?hf =
          flush_send (generate_headers cls ?hq) (concat (write_buffer ?hf)) None ?hq"
        by (rule flush_first_plain)
      have m: "http_method (request ?hf) \<noteq> ''HEAD''"
        and w: "written (request ?hf) = written (request h)"
        using nh before_final_flush_frame [OF assms(1), of cls chunk] by simp_all
      have "map_of (headers ?hq) ''Content-Length'' = Some ?n" using c by simp
      moreover have "written (request (snd (flush cls True None ?hf))) =
                      written (request h) @
                        [(generate_headers cls ?hq @ concat (write_buffer ?h1), None)]"
        using m w b by (simp add: fl flush_send_def request_write_def)
      ultimately show ?thesis by blast
    qed
    from a b c d show ?thesis by blast
  qed
  from general special show ?thesis by blast
qed

theorem finish_content_length_witness:
  "map_of (headers (before_final_flush plain_class None
       ((started (new_request ''POST'' []))\<lparr>write_buffer := [''ab'', ''cd'']\<rparr>))) ''Content-Length'' = Some ''4''
   \<and> written (request (snd (finish plain_class None
       ((started (new_request ''POST'' []))\<lparr>write_buffer := [''ab'', ''cd'']\<rparr>)))) =
       [(''HTTP/1.1 200'' @ crlf @ ''Content-Type: text/html'' @ crlf
          @ ''Content-Length: 4'' @ crlf @ crlf @ ''abcd'', None)]"
proof -
  let ?h = "(started (new_request ''POST'' []))\<lparr>write_buffer := [''ab'', ''cd'']\<rparr>"
  have 1: "\<not> finished ?h" and 2: "map_of (headers ?h) ''Content-Length'' = None"
    by (simp_all add: model_defs demo_defs)
  show ?thesis
    using finish_content_length [OF 1 2, of plain_class None]
    by (simp add: model_defs demo_defs)
qed
subsection \<open>Facts about \<open>_execute\<close>\<close>

text \<open>
  C6. When the request method is not in \<open>SUPPORTED_METHODS\<close>, \<open>_execute\<close> raises
  \<open>HTTPError(405)\<close> inside its \<open>try\<close> and hands it to \<open>_handle_request_exception\<close>, on
  the handler with only the transforms set. The outcome is the same whatever the hook
  \<open>prepare\<close>, the XSRF check, \<open>_when_complete\<close> and the routing collaborator are: none of
  them is invoked.
\<close>

theorem execute_unsupported_method_405:
  assumes "http_method (request h) \<notin> set (SUPPORTED_METHODS cls)"
  shows "execute (cls\<lparr>prepare := p, check_xsrf_cookie := x, when_complete := w\<rparr>)
           (app\<lparr>root := r\<rparr>) ts h =
         handle_request_exception cls (HTTPError 405) (h\<lparr>transforms := Some ts\<rparr>)"
  using assms by (simp add: execute_def execute_try_def)

theorem execute_unsupported_method_405_witness:
  "http_method (request (started (new_request ''PUT'' []))) \<notin> set (SUPPORTED_METHODS get_head_class)
   \<and> execute (get_head_class\<lparr>prepare := marking_prepare\<rparr>) plain_app []
        (started (new_request ''PUT'' [])) =
      (None, (started (new_request ''PUT'' []))\<lparr>status_code := 405\<rparr>)"
proof -
  let ?h = "started (new_request ''PUT'' [])"
  have m: "http_method (request ?h) \<notin> set (SUPPORTED_METHODS get_head_class)"
    by (simp add: model_defs demo_defs get_head_class_def marking_prepare_def)
  have "execute (get_head_class\<lparr>prepare := marking_prepare,
            check_xsrf_cookie := check_xsrf_cookie get_head_class,
            when_complete := when_complete get_head_class\<rparr>)
          (plain_app\<lparr>root := root plain_app\<rparr>) [] ?h =
        handle_request_exception get_head_class (HTTPError 405) (?h\<lparr>transforms := Some []\<rparr>)"
    using m by (rule execute_unsupported_method_405)
  then show ?thesis
    using m by (simp add: model_defs demo_defs get_head_class_def marking_prepare_def)
qed



text \<open>
  C8. As stated the claim fails: \<open>except Exception\<close> does not catch an exception that
  derives from \<open>BaseException\<close> only. A \<open>prepare\<close> hook that calls \<open>sys.exit()\<close> raises
  \<open>SystemExit\<close>, which leaves \<open>_execute\<close>; the exception handler, which would have
  answered 500, is not called.
\<close>

theorem execute_propagates_SystemExit:
  "execute exiting_class plain_app [] (started (new_request ''GET'' [])) =
     (Some (BaseOnly ''SystemExit''), started (new_request ''GET'' []))
   \<and> handle_request_exception exiting_class (BaseOnly ''SystemExit'') (started (new_request ''GET'' [])) =
     (None, (started (new_request ''GET'' []))\<lparr>status_code := 500\<rparr>)"
  by (simp add: model_defs demo_defs exiting_prepare_def exiting_class_def)

lemma execute_try_stages:
  "execute_try cls app h =
     (if http_method (request h) \<notin> set (SUPPORTED_METHODS cls) then (Some (HTTPError 405), h)
      else and_then (xsrf_stage cls app h)
             (\<lambda>h1. case prepare cls h1 of
                      (Inl e, h2) \<Rightarrow> (Some e, h2)
                    | (Inr r, h2) \<Rightarrow> when_complete cls r (execute_method app) h2))"
  by (simp add: execute_try_def xsrf_stage_def)

lemma execute_try_ignores_handler:
  "execute_try (cls\<lparr>handle_request_exception := g\<rparr>) app h = execute_try cls app h"
  by (auto simp: execute_try_def and_then_def split: prod.splits sum.splits option.splits)

text \<open>
  C8, amended. Take an exception raised in the \<open>try\<close> body of \<open>_execute\<close>: the
  \<open>HTTPError(405)\<close> of the method check, or whatever the XSRF check, \<open>prepare\<close>, or
  \<open>_when_complete\<close> with the dispatch it starts raises. If it is of class \<open>Exception\<close>,
  it is handed to \<open>_handle_request_exception\<close> on the handler as it was at the \<open>raise\<close>,
  and \<open>_execute\<close> returns or raises what that handler returns or raises. If it is not
  (it derives from \<open>BaseException\<close> only), it leaves \<open>_execute\<close> with the handler as it
  was at the \<open>raise\<close>, whatever the exception handler is: the handler is not called.
  When nothing is raised, \<open>_execute\<close> returns what the dispatch returned. Hence an
  exception that leaves \<open>_execute\<close> is either one of the \<open>try\<close> body that is not of
  class \<open>Exception\<close>, or one raised by the exception handler itself.
\<close>

theorem execute_error_boundary:
  "(http_method (request h) \<notin> set (SUPPORTED_METHODS cls) \<longrightarrow>
      execute cls app ts h =
        handle_request_exception cls (HTTPError 405) (h\<lparr>transforms := Some ts\<rparr>))
   \<and> (http_method (request h) \<in> set (SUPPORTED_METHODS cls)
       \<and> xsrf_stage cls app (h\<lparr>transforms := Some ts\<rparr>) = (Some e1, h1) \<longrightarrow>
      execute cls app ts h =
        (if is_Exception e1 then handle_request_exception cls e1 h1 else (Some e1, h1)))
   \<and> (http_method (request h) \<in> set (SUPPORTED_METHODS cls)
       \<and> xsrf_stage cls app (h\<lparr>transforms := Some ts\<rparr>) = (None, h1)
       \<and> prepare cls h1 = (Inl e2, h2) \<longrightarrow>
      execute cls app ts h =
        (if is_Exception e2 then handle_request_exception cls e2 h2 else (Some e2, h2)))
   \<and> (http_method (request h) \<in> set (SUPPORTED_METHODS cls)
       \<and> xsrf_stage cls app (h\<lparr>transforms := Some ts\<rparr>) = (None, h1)
       \<and> prepare cls h1 = (Inr v, h2)
       \<and> when_complete cls v (execute_method app) h2 = (Some e3, h3) \<longrightarrow>
      execute cls app ts h =
        (if is_Exception e3 then handle_request_exception cls e3 h3 else (Some e3, h3)))
   \<and> (http_method (request h) \<in> set (SUPPORTED_METHODS cls)
       \<and> xsrf_stage cls app (h\<lparr>transforms := Some ts\<rparr>) = (None, h1)
       \<and> prepare cls h1 = (Inr v, h2)
       \<and> when_complete cls v (execute_method app) h2 = (None, h3) \<longrightarrow>
      execute cls app ts h = (None, h3))
   \<and> (execute_try cls app (h\<lparr>transforms := Some ts\<rparr>) = (Some e, h') \<and> \<not> is_Exception e \<longrightarrow>
      execute (cls\<lparr>handle_request_exception := g\<rparr>) app ts h = (Some e, h'))
   \<and> (fst (execute cls app ts h) = Some x \<longrightarrow>
        (\<not> is_Exception x \<and> fst (execute_try cls app (h\<lparr>transforms := Some ts\<rparr>)) = Some x)
        \<or> (\<exists>e'. is_Exception e'
              \<and> fst (execute_try cls app (h\<lparr>transforms := Some ts\<rparr>)) = Some e'
              \<and> fst (handle_request_exception cls e'
                     (snd (execute_try cls app (h\<lparr>transforms := Some ts\<rparr>)))) = Some x))"
proof -
  let ?h0 = "h\<lparr>transforms := Some ts\<rparr>"
  have m: "http_method (request ?h0) = http_method (request h)" by simp
  have a: "http_method (request h) \<notin> set (SUPPORTED_METHODS cls) \<longrightarrow>
      execute cls app ts h = handle_request_exception cls (HTTPError 405) ?h0"
    by (simp add: execute_def execute_try_stages)
  have b: "http_method (request h) \<in> set (SUPPORTED_METHODS cls)
       \<and> xsrf_stage cls app ?h0 = (Some e1, h1) \<longrightarrow>
      execute cls app ts h =
        (if is_Exception e1 then handle_request_exception cls e1 h1 else (Some e1, h1))"
    by (simp add: execute_def execute_try_stages and_then_def)
  have c: "http_method (request h) \<in> set (SUPPORTED_METHODS cls)
       \<and> xsrf_stage cls app ?h0 = (None, h1)
       \<and> prepare cls h1 = (Inl e2, h2) \<longrightarrow>
      execute cls app ts h =
        (if is_Exception e2 then handle_request_exception cls e2 h2 else (Some e2, h2))"
    by (simp add: execute_def execute_try_stages and_then_def)
  have d: "http_method (request h) \<in> set (SUPPORTED_METHODS cls)
       \<and> xsrf_stage cls app ?h0 = (None, h1)
       \<and> prepare cls h1 = (Inr v, h2)
       \<and> when_complete cls v (execute_method app) h2 = (Some e3, h3) \<longrightarrow>
      execute cls app ts h =
        (if is_Exception e3 then handle_request_exception cls e3 h3 else (Some e3, h3))"
    by (simp add: execute_def execute_try_stages and_then_def)
  have e: "http_method (request h) \<in> set (SUPPORTED_METHODS cls)
       \<and> xsrf_stage cls app ?h0 = (None, h1)
       \<and> prepare cls h1 = (Inr v, h2)
       \<and> when_complete cls v (execute_method app) h2 = (None, h3) \<longrightarrow>
      execute cls app ts h = (None, h3)"
    by (simp add: execute_def execute_try_stages and_then_def)
  have f: "execute_try cls app ?h0 = (Some e, h') \<and> \<not> is_Exception e \<longrightarrow>
      execute (cls\<lparr>handle_request_exception := g\<rparr>) app ts h = (Some e, h')"
    by (simp add: execute_def execute_try_ignores_handler)
  have g: "fst (execute cls app ts h) = Some x \<longrightarrow>
        (\<not> is_Exception x \<and> fst (execute_try cls app ?h0) = Some x)
        \<or> (\<exists>e'. is_Exception e'
              \<and> fst (execute_try cls app ?h0) = Some e'
              \<and> fst (handle_request_exception cls e' (snd (execute_try cls app ?h0))) = Some x)"
  proof (cases "execute_try cls app ?h0")
    case (Pair r hx)
    then show ?thesis
      by (cases r) (auto simp: execute_def split: if_splits)
  qed
  from a b c d e f g show ?thesis by blast
qed

theorem execute_error_boundary_witness:
  "execute get_head_class plain_app [] (started (new_request ''PUT'' [])) =
     (None, (started (new_request ''PUT'' []))\<lparr>status_code := 405\<rparr>)
   \<and> prepare failing_class (started (new_request ''GET'' [])) =
     (Inl (OtherException ''ValueError''), started (new_request ''GET'' []))
   \<and> execute failing_class plain_app [] (started (new_request ''GET'' [])) =
     (None, (started (new_request ''GET'' []))\<lparr>status_code := 500\<rparr>)"
proof -
  let ?p = "started (new_request ''PUT'' [])"
  let ?g = "started (new_request ''GET'' [])"
  have 1: "http_method (request ?p) \<notin> set (SUPPORTED_METHODS get_head_class)"
    by (simp add: model_defs demo_defs get_head_class_def)
  have 2: "http_method (request ?g) \<in> set (SUPPORTED_METHODS failing_class)"
    and 3: "xsrf_stage failing_class plain_app (?g\<lparr>transforms := Some []\<rparr>) = (None, ?g)"
    and 4: "prepare failing_class ?g = (Inl (OtherException ''ValueError''), ?g)"
    by (simp_all add: model_defs demo_defs xsrf_stage_def failing_class_def failing_prepare_def)
  have a: "execute get_head_class plain_app [] ?p =
      handle_request_exception get_head_class (HTTPError 405) (?p\<lparr>transforms := Some []\<rparr>)"
    using 1 execute_error_boundary [where h = ?p and cls = get_head_class and app = plain_app
        and ts = "[]"] by blast
  have b: "execute failing_class plain_app [] ?g =
      (if is_Exception (OtherException ''ValueError'')
       then handle_request_exception failing_class (OtherException ''ValueError'') ?g
       else (Some (OtherException ''ValueError''), ?g))"
    using 2 3 4 execute_error_boundary [where h = ?g and cls = failing_class and app = plain_app
        and ts = "[]" and ?h1.0 = ?g and ?e2.0 = "OtherException ''ValueError''" and ?h2.0 = ?g]
    by blast
  show ?thesis
    using a b 4
    by (simp add: model_defs demo_defs get_head_class_def failing_class_def failing_prepare_def)
qed
subsection \<open>Sequences of \<open>flush\<close> and \<open>finish\<close>\<close>

lemma changes_run_step:
  "changes (a # map P (run cls xs h)) =
     (if a \<noteq> P h then [(a, P h)] else []) @ changes (map P (run cls xs h))"
  by (cases xs) simp_all

lemma last_run_step: "last (h # run cls xs h') = last (run cls xs h')"
  by (cases xs) simp_all

lemma changes_run_stable:
  assumes keep: "\<And>x h. I h \<Longrightarrow> P h \<Longrightarrow> P (step cls x h)"
    and inv: "\<And>x h. I h \<Longrightarrow> I (step cls x h)"
  shows "I h \<Longrightarrow> P h \<Longrightarrow>
         changes (map P (run cls ops h)) = [] \<and> P (last (run cls ops h))"
proof (induction ops arbitrary: h)
  case Nil
  then show ?case by simp
next
  case (Cons x xs)
  have "I (step cls x h)" and "P (step cls x h)"
    using Cons.prems keep inv by blast+
  then have "changes (map P (run cls xs (step cls x h))) = []
      \<and> P (last (run cls xs (step cls x h)))"
    by (rule Cons.IH)
  then show ?case
    using Cons.prems \<open>P (step cls x h)\<close>
    by (simp add: changes_run_step last_run_step del: last.simps)
qed

lemma changes_run:
  assumes keep: "\<And>x h. I h \<Longrightarrow> P h \<Longrightarrow> P (step cls x h)"
    and inv: "\<And>x h. I h \<Longrightarrow> I (step cls x h)"
  shows "I h \<Longrightarrow>
         changes (map P (run cls ops h)) =
           (if \<not> P h \<and> P (last (run cls ops h)) then [(False, True)] else [])"
proof (induction ops arbitrary: h)
  case Nil
  then show ?case by simp
next
  case (Cons x xs)
  have i: "I (step cls x h)" using Cons.prems inv by blast
  show ?case
  proof (cases "P h")
    case True
    then show ?thesis
      using changes_run_stable [of I P cls h "x # xs", OF keep inv] Cons.prems by simp
  next
    case False
    note notP = False
    show ?thesis
    proof (cases "P (step cls x h)")
      case True
      then have "changes (map P (run cls xs (step cls x h))) = []
          \<and> P (last (run cls xs (step cls x h)))"
        using changes_run_stable [of I P cls "step cls x h" xs, OF keep inv] i by simp
      then show ?thesis
        using notP True by (simp add: changes_run_step last_run_step del: last.simps)
    next
      case False
      then show ?thesis
        using notP Cons.IH [OF i]
        by (simp add: changes_run_step last_run_step del: last.simps)
    qed
  qed
qed


lemma flush_send_frame:
  "write_buffer (snd (flush_send hdrs c cb h)) = write_buffer h"
  "headers_written (snd (flush_send hdrs c cb h)) = headers_written h"
  by (simp_all add: flush_send_def request_write_def)

lemma flush_buffer: "write_buffer (snd (flush cls i cb h)) = []"
  by (simp add: flush_def Let_def flush_send_frame split: option.splits prod.splits)

lemma flush_headers_written: "headers_written (snd (flush cls i cb h))"
  by (simp add: flush_def Let_def flush_send_frame split: option.splits prod.splits)

lemma finish_headers_finished: "finished (snd (finish_headers cls h)) = finished h"
  by (simp add: finish_headers_def finish_etag_def Let_def set_etag_header_def
        set_header_def set_status_def clear_headers_for_304_def)

lemma finish_when_finished: "finished h \<Longrightarrow> snd (finish cls chunk h) = h"
  by (simp add: finish_def)

text \<open>The three ways an unfinished \<open>finish\<close> can end.\<close>

lemma finish_cases:
  assumes "\<not> finished h"
  obtains (in_headers) "snd (finish cls chunk h) = snd (finish_headers cls (snd (write_final chunk h)))"
                    "fst (finish_headers cls (snd (write_final chunk h))) \<noteq> None"
  | (in_flush) "snd (finish cls chunk h) = snd (flush cls True None (before_final_flush cls chunk h))"
            "fst (flush cls True None (before_final_flush cls chunk h)) \<noteq> None"
  | (completed) "snd (finish cls chunk h) =
              snd (finish_done cls (snd (flush cls True None (before_final_flush cls chunk h))))"
proof -
  obtain r1 h1 where fh: "finish_headers cls (snd (write_final chunk h)) = (r1, h1)"
    by (cases "finish_headers cls (snd (write_final chunk h))")
  obtain r2 h2 where fl: "flush cls True None (detach_close_callback h1) = (r2, h2)"
    by (cases "flush cls True None (detach_close_callback h1)")
  show thesis
  proof (cases r1)
    case (Some e)
    then show thesis
      using assms fh in_headers
      by (simp add: finish_def and_then_def write_final_unfinished)
  next
    case None
    note r1 = None
    show thesis
    proof (cases r2)
      case (Some e)
      then show thesis
        using assms fh fl r1 in_flush
        by (simp add: finish_def and_then_def write_final_unfinished before_final_flush_def)
    next
      case None
      then show thesis
        using assms fh fl r1 completed
        by (simp add: finish_def and_then_def write_final_unfinished before_final_flush_def)
    qed
  qed
qed


lemma finish_done_settles:
  assumes hook: "\<forall>x. finished x \<and> headers_written x \<and> write_buffer x = [] \<longrightarrow>
      finished (snd (on_finish cls x)) \<and> headers_written (snd (on_finish cls x))
      \<and> write_buffer (snd (on_finish cls x)) = []"
    and "headers_written h" and "write_buffer h = []"
  shows "finished (snd (finish_done cls h)) \<and> headers_written (snd (finish_done cls h))
      \<and> write_buffer (snd (finish_done cls h)) = []"
proof -
  let ?x = "(log_request (request_finish h))\<lparr>finished := True\<rparr>"
  have "finished ?x \<and> headers_written ?x \<and> write_buffer ?x = []"
    using assms(2,3) by (simp add: log_request_def request_finish_def)
  with hook show ?thesis unfolding finish_done_def by blast
qed

lemma finish_after:
  assumes hook: "\<forall>x. finished x \<and> headers_written x \<and> write_buffer x = [] \<longrightarrow>
      finished (snd (on_finish cls x)) \<and> headers_written (snd (on_finish cls x))
      \<and> write_buffer (snd (on_finish cls x)) = []"
    and unfinished: "\<not> finished h"
  shows "settled (snd (finish cls chunk h))
      \<and> (headers_written h \<longrightarrow> headers_written (snd (finish cls chunk h)))"
proof (rule finish_cases [OF unfinished, of cls chunk])
  assume eq: "snd (finish cls chunk h) = snd (finish_headers cls (snd (write_final chunk h)))"
  have "\<not> finished (snd (finish cls chunk h))"
    using unfinished by (simp add: eq finish_headers_finished write_final_unfinished)
  moreover have "headers_written h \<longrightarrow> headers_written (snd (finish cls chunk h))"
    using unfinished by (simp add: eq finish_headers_frame write_final_unfinished)
  ultimately show ?thesis by (simp add: settled_def)
next
  assume eq: "snd (finish cls chunk h) =
      snd (flush cls True None (before_final_flush cls chunk h))"
  have "\<not> finished (snd (finish cls chunk h))"
    using unfinished
    by (simp add: eq flush_finished before_final_flush_def finish_headers_finished
          write_final_unfinished)
  moreover have "headers_written (snd (finish cls chunk h))"
    by (simp add: eq flush_headers_written)
  ultimately show ?thesis by (simp add: settled_def)
next
  assume eq: "snd (finish cls chunk h) =
      snd (finish_done cls (snd (flush cls True None (before_final_flush cls chunk h))))"
  have "finished (snd (finish cls chunk h)) \<and> headers_written (snd (finish cls chunk h))
      \<and> write_buffer (snd (finish cls chunk h)) = []"
    unfolding eq
    by (rule finish_done_settles [OF hook flush_headers_written flush_buffer])
  then show ?thesis by (simp add: settled_def)
qed

lemma step_settled:
  assumes hook: "\<forall>x. finished x \<and> headers_written x \<and> write_buffer x = [] \<longrightarrow>
      finished (snd (on_finish cls x)) \<and> headers_written (snd (on_finish cls x))
      \<and> write_buffer (snd (on_finish cls x)) = []"
    and "settled h"
  shows "settled (step cls x h)"
proof (cases x)
  case (Flush i cb)
  then show ?thesis
    by (simp add: settled_def flush_headers_written flush_buffer)
next
  case (Finish chunk)
  show ?thesis
  proof (cases "finished h")
    case True
    then show ?thesis using assms(2) Finish by (simp add: finish_when_finished)
  next
    case False
    then show ?thesis using finish_after [OF hook False] Finish by simp
  qed
qed

lemma step_finished: "settled h \<Longrightarrow> finished h \<Longrightarrow> finished (step cls x h)"
  by (cases x) (simp_all add: flush_finished finish_when_finished)

lemma step_headers_written:
  assumes hook: "\<forall>x. finished x \<and> headers_written x \<and> write_buffer x = [] \<longrightarrow>
      finished (snd (on_finish cls x)) \<and> headers_written (snd (on_finish cls x))
      \<and> write_buffer (snd (on_finish cls x)) = []"
    and "headers_written h"
  shows "headers_written (step cls x h)"
proof (cases x)
  case (Flush i cb)
  then show ?thesis by (simp add: flush_headers_written)
next
  case (Finish chunk)
  show ?thesis
  proof (cases "finished h")
    case True
    then show ?thesis using assms(2) Finish by (simp add: finish_when_finished)
  next
    case False
    then show ?thesis using finish_after [OF hook False] assms(2) Finish by simp
  qed
qed

lemma step_buffer:
  "settled h \<Longrightarrow> finished h \<Longrightarrow> write_buffer (step cls x h) = []"
  by (cases x) (simp_all add: flush_buffer finish_when_finished settled_def)

lemma run_length: "length (run cls ops h) = Suc (length ops)"
  by (induction ops arbitrary: h) simp_all

lemma run_nth_0: "run cls ops h ! 0 = h"
  by (cases ops) simp_all

lemma run_nth_Suc:
  "i < length ops \<Longrightarrow> run cls ops h ! Suc i = step cls (ops ! i) (run cls ops h ! i)"
proof (induction ops arbitrary: h i)
  case Nil
  then show ?case by simp
next
  case (Cons x xs)
  show ?case
  proof (cases i)
    case 0
    then show ?thesis by (simp add: run_nth_0)
  next
    case (Suc k)
    then show ?thesis using Cons.prems Cons.IH [of k "step cls x h"] by simp
  qed
qed

lemma run_settled:
  assumes hook: "\<forall>x. finished x \<and> headers_written x \<and> write_buffer x = [] \<longrightarrow>
      finished (snd (on_finish cls x)) \<and> headers_written (snd (on_finish cls x))
      \<and> write_buffer (snd (on_finish cls x)) = []"
    and "settled h"
  shows "i \<le> length ops \<Longrightarrow> settled (run cls ops h ! i)"
proof (induction i)
  case 0
  then show ?case using assms(2) by (simp add: run_nth_0)
next
  case (Suc i)
  then show ?case by (simp add: run_nth_Suc step_settled [OF hook])
qed

lemma run_finished_stays:
  assumes hook: "\<forall>x. finished x \<and> headers_written x \<and> write_buffer x = [] \<longrightarrow>
      finished (snd (on_finish cls x)) \<and> headers_written (snd (on_finish cls x))
      \<and> write_buffer (snd (on_finish cls x)) = []"
    and "settled h" and "finished (run cls ops h ! i)"
  shows "i \<le> j \<Longrightarrow> j \<le> length ops \<Longrightarrow>
         finished (run cls ops h ! j) \<and> write_buffer (run cls ops h ! j) = []"
proof (induction j)
  case 0
  then show ?case
    using assms(2,3) by (simp add: run_nth_0 settled_def)
next
  case (Suc j)
  show ?case
  proof (cases "i = Suc j")
    case True
    then show ?thesis
      using assms(3) run_settled [OF hook assms(2), of i ops] Suc.prems
      by (simp add: settled_def)
  next
    case False
    then have "finished (run cls ops h ! j)" using Suc by simp
    moreover have "settled (run cls ops h ! j)"
      using run_settled [OF hook assms(2), of j ops] Suc.prems by simp
    ultimately show ?thesis
      using Suc.prems by (simp add: run_nth_Suc step_finished step_buffer)
  qed
qed


text \<open>
  C9. Take any sequence of \<open>flush\<close> and \<open>finish\<close> calls on a handler that is not yet
  finished, with a hook \<open>on_finish\<close> that leaves a finished response finished, its headers
  written and its buffer empty. Along the states before and after each call: \<open>_finished\<close>
  changes once, from false to true, when the last state is finished, and never otherwise;
  \<open>_headers_written\<close> changes once, from false to true, when it started false and ends
  true, and never otherwise; it is true after every \<open>flush\<close> and in every finished state;
  and from a finished state on the write buffer stays as it is.
\<close>

theorem response_lifecycle:
  assumes fresh: "\<not> finished h"
    and hook: "\<forall>x. finished x \<and> headers_written x \<and> write_buffer x = [] \<longrightarrow>
      finished (snd (on_finish cls x)) \<and> headers_written (snd (on_finish cls x))
      \<and> write_buffer (snd (on_finish cls x)) = []"
  shows "changes (map finished (run cls ops h)) =
           (if finished (last (run cls ops h)) then [(False, True)] else [])
     \<and> changes (map headers_written (run cls ops h)) =
           (if \<not> headers_written h \<and> headers_written (last (run cls ops h))
            then [(False, True)] else [])
     \<and> (\<forall>i < length ops. (\<exists>f cb. ops ! i = Flush f cb) \<longrightarrow>
            headers_written (run cls ops h ! Suc i))
     \<and> (\<forall>i \<le> length ops. finished (run cls ops h ! i) \<longrightarrow>
            headers_written (run cls ops h ! i))
     \<and> (\<forall>i j. i \<le> j \<and> j \<le> length ops \<and> finished (run cls ops h ! i) \<longrightarrow>
            write_buffer (run cls ops h ! j) = write_buffer (run cls ops h ! i))"
proof -
  have s0: "settled h" using fresh by (simp add: settled_def)
  have a: "changes (map finished (run cls ops h)) =
           (if finished (last (run cls ops h)) then [(False, True)] else [])"
    using changes_run [of settled finished cls h ops, OF step_finished step_settled [OF hook] s0]
      fresh by simp
  have b: "changes (map headers_written (run cls ops h)) =
           (if \<not> headers_written h \<and> headers_written (last (run cls ops h))
            then [(False, True)] else [])"
    using changes_run [of "\<lambda>_. True" headers_written cls h ops,
        OF step_headers_written [OF hook]] by simp
  have c: "\<forall>i < length ops. (\<exists>f cb. ops ! i = Flush f cb) \<longrightarrow>
            headers_written (run cls ops h ! Suc i)"
    by (auto simp: run_nth_Suc flush_headers_written)
  have d: "\<forall>i \<le> length ops. finished (run cls ops h ! i) \<longrightarrow>
            headers_written (run cls ops h ! i)"
    using run_settled [OF hook s0, of _ ops] by (auto simp: settled_def)
  have e: "\<forall>i j. i \<le> j \<and> j \<le> length ops \<and> finished (run cls ops h ! i) \<longrightarrow>
            write_buffer (run cls ops h ! j) = write_buffer (run cls ops h ! i)"
  proof (intro allI impI)
    fix i j
    assume ij: "i \<le> j \<and> j \<le> length ops \<and> finished (run cls ops h ! i)"
    then have "write_buffer (run cls ops h ! j) = []"
      using run_finished_stays [OF hook s0, of ops i j] by simp
    moreover have "write_buffer (run cls ops h ! i) = []"
      using ij run_finished_stays [OF hook s0, of ops i i] by simp
    ultimately show "write_buffer (run cls ops h ! j) = write_buffer (run cls ops h ! i)"
      by simp
  qed
  from a b c d e show ?thesis by blast
qed

theorem response_lifecycle_witness:
  "map finished (run plain_class [Flush False None, Finish (Some ''cd''), Flush True None, Finish None]
       ((started (new_request ''GET'' []))\<lparr>write_buffer := [''ab'']\<rparr>)) =
     [False, False, True, True, True]
   \<and> changes (map finished (run plain_class
       [Flush False None, Finish (Some ''cd''), Flush True None, Finish None]
       ((started (new_request ''GET'' []))\<lparr>write_buffer := [''ab'']\<rparr>))) = [(False, True)]
   \<and> changes (map headers_written (run plain_class
       [Flush False None, Finish (Some ''cd''), Flush True None, Finish None]
       ((started (new_request ''GET'' []))\<lparr>write_buffer := [''ab'']\<rparr>))) = [(False, True)]
   \<and> map write_buffer (run plain_class
       [Flush False None, Finish (Some ''cd''), Flush True None, Finish None]
       ((started (new_request ''GET'' []))\<lparr>write_buffer := [''ab'']\<rparr>)) =
     [[''ab''], [], [], [], []]"
proof -
  let ?h = "(started (new_request ''GET'' []))\<lparr>write_buffer := [''ab'']\<rparr>"
  let ?ops = "[Flush False None, Finish (Some ''cd''), Flush True None, Finish None]"
  have 1: "\<not> finished ?h" by (simp add: model_defs demo_defs)
  have 2: "\<forall>x. finished x \<and> headers_written x \<and> write_buffer x = [] \<longrightarrow>
      finished (snd (on_finish plain_class x)) \<and> headers_written (snd (on_finish plain_class x))
      \<and> write_buffer (snd (on_finish plain_class x)) = []"
    by (simp add: plain_class_def)
  have f: "map finished (run plain_class ?ops ?h) = [False, False, True, True, True]"
    by (simp add: model_defs demo_defs)
  have w: "map write_buffer (run plain_class ?ops ?h) = [[''ab''], [], [], [], []]"
    by (simp add: model_defs demo_defs)
  have hw: "map headers_written (run plain_class ?ops ?h) = [False, True, True, True, True]"
    by (simp add: model_defs demo_defs)
  have l: "finished (last (run plain_class ?ops ?h))"
    by (simp add: model_defs demo_defs)
  show ?thesis
    using response_lifecycle [OF 1 2, of ?ops] f w hw l by simp
qed

subsection \<open>Construction and dispatch\<close>





end
